theory Spec2Isabelle
  imports Main "HOL-Library.Sublist" "HOL-Library.Char_ord" "HOL-Library.List_Lexorder"
begin

section \<open>Python strings\<close>

text \<open>
  File names, database tags and connection strings are only compared, cut and joined, so
  they are kept as \<open>string\<close>.  The text of a CSV field is stripped and upper-cased, which
  depends on what each character is: there a Python \<open>str\<close> is the list of its Unicode
  code points.
\<close>

type_synonym codepoint = nat

type_synonym pystr = "codepoint list"

text \<open>The \<open>str\<close> that a literal of the source denotes.\<close>

definition ustr :: "string \<Rightarrow> pystr" where
  "ustr s = map of_char s"

text \<open>
  The whitespace that \<open>str.strip()\<close> removes, \<open>Py_UNICODE_ISSPACE\<close>: in ASCII the tab,
  line feed, vertical tab, form feed, carriage return, the four separators \<open>0x1C\<close> to
  \<open>0x1F\<close> and the space; beyond ASCII the next-line control, the no-break space and the
  Unicode space separators, line separator and paragraph separator.
\<close>

definition isspace :: "codepoint \<Rightarrow> bool" where
  "isspace c =
     ((0x09 \<le> c \<and> c \<le> 0x0D) \<or> (0x1C \<le> c \<and> c \<le> 0x20) \<or> c = 0x85 \<or> c = 0xA0
      \<or> c = 0x1680 \<or> (0x2000 \<le> c \<and> c \<le> 0x200A) \<or> c = 0x2028 \<or> c = 0x2029
      \<or> c = 0x202F \<or> c = 0x205F \<or> c = 0x3000)"

text \<open>
  \<open>s.strip()\<close>: CPython moves an index right from the start while it sees whitespace,
  then an index left from the end while it sees whitespace, and returns the slice between.
\<close>

definition py_lstrip :: "pystr \<Rightarrow> pystr" where
  "py_lstrip s = dropWhile isspace s"

definition py_rstrip :: "pystr \<Rightarrow> pystr" where
  "py_rstrip s = rev (dropWhile isspace (rev s))"

definition py_strip :: "pystr \<Rightarrow> pystr" where
  "py_strip s = py_rstrip (py_lstrip s)"

text \<open>
  \<open>s.replace(old, new)\<close>: every non-overlapping occurrence of \<open>old\<close>, found from the
  left, is replaced by \<open>new\<close>.  With an empty \<open>old\<close>, \<open>new\<close> is inserted before every
  character and at the end.
\<close>

function py_replace :: "'a list \<Rightarrow> 'a list \<Rightarrow> 'a list \<Rightarrow> 'a list" where
  "py_replace old new [] = (if old = [] then new else [])"
| "py_replace old new (c # cs) =
     (if old = [] then new @ c # py_replace old new cs
      else if prefix old (c # cs) then new @ py_replace old new (drop (length old) (c # cs))
      else c # py_replace old new cs)"
  by pat_completeness auto
termination
  by (relation "measure (\<lambda>(old, new, s). length s)") auto

text \<open>
  \<open>s.upper()\<close> replaces each character by its full upper-case mapping, one character at
  a time.  On an ASCII character that moves the letters \<open>a\<close> to \<open>z\<close> to \<open>A\<close> to \<open>Z\<close> and
  leaves every other character.  Beyond ASCII the mapping is the case table of the Unicode
  database that comes with the interpreter, \<open>_PyUnicode_ToUpperFull\<close>; it is no part of
  \<open>functions.py\<close> and is a parameter here.  It gives a string, since one character may
  become several (the sharp s becomes \<open>SS\<close>).
\<close>

type_synonym case_table = "codepoint \<Rightarrow> pystr"

definition ascii_upper :: "codepoint \<Rightarrow> codepoint" where
  "ascii_upper c = (if 0x61 \<le> c \<and> c \<le> 0x7A then c - 0x20 else c)"

definition upper_full :: "case_table \<Rightarrow> codepoint \<Rightarrow> pystr" where
  "upper_full toupper c = (if c < 0x80 then [ascii_upper c] else toupper c)"

definition py_upper :: "case_table \<Rightarrow> pystr \<Rightarrow> pystr" where
  "py_upper toupper s = concat (map (upper_full toupper) s)"

text \<open>\<open>s.endswith(suffix)\<close>.\<close>

definition endswith :: "string \<Rightarrow> string \<Rightarrow> bool" where
  "endswith s suff = suffix suff s"

section \<open>format\_list\<close>

text \<open>
  The body of the \<open>for col in input_list\<close> loop of \<open>format_list\<close>: one column value is
  cleaned, and canonicalised when the line is a header.
\<close>

definition format_col :: "case_table \<Rightarrow> bool \<Rightarrow> pystr \<Rightarrow> pystr" where
  "format_col toupper header col =
     (let val = py_strip (py_replace (ustr ''\"'') (ustr '''') col)
      in if header then py_upper toupper (py_replace (ustr '' '') (ustr ''_'') val) else val)"

text \<open>The loop itself, with the list \<open>output\<close> it appends to.\<close>

fun format_loop :: "case_table \<Rightarrow> bool \<Rightarrow> pystr list \<Rightarrow> pystr list \<Rightarrow> pystr list" where
  "format_loop toupper header output [] = output"
| "format_loop toupper header output (col # cols) =
     format_loop toupper header (output @ [format_col toupper header col]) cols"

text \<open>
  \<open>format_list(input_list, header=False)\<close>.  The argument is \<open>None\<close> or a list of
  strings; \<open>not input_list\<close> is true of \<open>None\<close> and of the empty list.  The result is
  \<open>None\<close> or the list \<open>output\<close>.
\<close>

definition format_list :: "case_table \<Rightarrow> pystr list option \<Rightarrow> bool \<Rightarrow> pystr list option" where
  "format_list toupper input_list header =
     (case input_list of
        None \<Rightarrow> None
      | Some [] \<Rightarrow> None
      | Some (col # cols) \<Rightarrow> Some (format_loop toupper header [] (col # cols)))"

text \<open>
  The same cleaning, said a second time in the words of the specification and without
  Python's string methods.  Whitespace is the list of the whitespace characters of Unicode;
  the double-quote characters are struck out, whitespace is cut from both ends, every
  space left becomes an underscore, and every letter becomes its capital: for the
  letters of ASCII by the alphabet, for every other character by the case table.
\<close>

definition spec_whitespace :: "codepoint list" where
  "spec_whitespace =
     [0x09, 0x0A, 0x0B, 0x0C, 0x0D, 0x1C, 0x1D, 0x1E, 0x1F, 0x20, 0x85, 0xA0, 0x1680,
      0x2000, 0x2001, 0x2002, 0x2003, 0x2004, 0x2005, 0x2006, 0x2007, 0x2008, 0x2009, 0x200A,
      0x2028, 0x2029, 0x202F, 0x205F, 0x3000]"

definition spec_strip_quotes :: "pystr \<Rightarrow> pystr" where
  "spec_strip_quotes s = filter (\<lambda>c. c \<noteq> 0x22) s"

definition spec_trim :: "pystr \<Rightarrow> pystr" where
  "spec_trim s =
     dropWhile (\<lambda>c. c \<in> set spec_whitespace)
       (rev (dropWhile (\<lambda>c. c \<in> set spec_whitespace) (rev s)))"

definition spec_underscore :: "pystr \<Rightarrow> pystr" where
  "spec_underscore s = map (\<lambda>c. if c = 0x20 then 0x5F else c) s"

definition spec_capital :: "case_table \<Rightarrow> codepoint \<Rightarrow> pystr" where
  "spec_capital toupper c =
     (case map_of (zip (ustr ''abcdefghijklmnopqrstuvwxyz'') (ustr ''ABCDEFGHIJKLMNOPQRSTUVWXYZ'')) c of
        Some u \<Rightarrow> [u]
      | None \<Rightarrow> if c < 0x80 then [c] else toupper c)"

definition spec_uppercase :: "case_table \<Rightarrow> pystr \<Rightarrow> pystr" where
  "spec_uppercase toupper s = concat (map (spec_capital toupper) s)"

definition spec_header_field :: "case_table \<Rightarrow> pystr \<Rightarrow> pystr" where
  "spec_header_field toupper s =
     spec_uppercase toupper (spec_underscore (spec_trim (spec_strip_quotes s)))"

definition spec_data_field :: "pystr \<Rightarrow> pystr" where
  "spec_data_field s = spec_trim (spec_strip_quotes s)"

text \<open>
  A few rows of the case table, for running the function on text beyond ASCII: the sharp s
  becomes \<open>SS\<close>, e with acute becomes its capital, and \<open>y\<close> with diaeresis becomes a
  capital outside Latin-1.
\<close>

definition sample_toupper :: case_table where
  "sample_toupper c =
     (if c = 0xDF then [0x53, 0x53]
      else if c = 0xE9 then [0xC9]
      else if c = 0xFF then [0x178]
      else [c])"

section \<open>Database types and default ports\<close>

text \<open>The enumeration \<open>DBType\<close> and the \<open>value\<close> of each member.\<close>

datatype DBType = ORACLE | MYSQL | POSTGRES | DB2

fun DBType_value :: "DBType \<Rightarrow> string" where
  "DBType_value ORACLE = ''oracle''"
| "DBType_value MYSQL = ''mysql''"
| "DBType_value POSTGRES = ''postgres''"
| "DBType_value DB2 = ''db2''"

text \<open>
  \<open>get_default_db_port(db_type)\<close>: an \<open>if\<close>/\<open>elif\<close> chain with no \<open>else\<close>, so a
  type that no branch takes falls off the end of the function, which returns \<open>None\<close>.
\<close>

definition get_default_db_port :: "string \<Rightarrow> string option" where
  "get_default_db_port db_type =
     (if db_type = DBType_value ORACLE then Some ''1521''
      else if db_type = DBType_value MYSQL then Some ''3306''
      else if db_type = DBType_value POSTGRES then Some ''5432''
      else if db_type = DBType_value DB2 then Some ''50000''
      else None)"

section \<open>Exceptions and calls into libraries\<close>

text \<open>
  A raised exception is a value: the name of its class and its message, \<open>str(err)\<close>.
  A call that may raise returns \<open>exn + 'a\<close>, with \<open>Inl\<close> for the exception.
\<close>

datatype exn = Exn (exn_class: string) (exn_msg: string)

text \<open>
  What a function does to the world outside is kept as a list of events, in the order they
  happen: an \<open>import\<close> statement that is run, and a call of a library entry point.
\<close>

datatype event = Import string | Call string

text \<open>A string between single quotes, as in the message of \<open>ModuleNotFoundError\<close>.\<close>

definition quoted :: "string \<Rightarrow> string" where
  "quoted s = [CHR 0x27] @ s @ [CHR 0x27]"

text \<open>
  \<open>int(s)\<close> for a string in base 10: whitespace around the literal is dropped, one sign
  may lead, and the digits may be grouped by single underscores.  Anything else raises
  \<open>ValueError\<close>; the message quotes the argument (as \<open>repr\<close> does for a string of
  plain printable characters).  For an ASCII string the whitespace of \<open>int\<close> is that of
  C, which leaves out the separators \<open>0x1C\<close> to \<open>0x1F\<close> that \<open>str.strip\<close> takes.
\<close>

definition c_isspace :: "char \<Rightarrow> bool" where
  "c_isspace c = (let n = (of_char c :: nat) in (9 \<le> n \<and> n \<le> 13) \<or> n = 32)"

definition isdigit :: "char \<Rightarrow> bool" where
  "isdigit c = (let n = (of_char c :: nat) in 48 \<le> n \<and> n \<le> 57)"

fun grouped_digits :: "string \<Rightarrow> bool" where
  "grouped_digits [] = False"
| "grouped_digits [c] = isdigit c"
| "grouped_digits (c # d # cs) =
     (isdigit c \<and> (if d = CHR ''_'' then grouped_digits cs else grouped_digits (d # cs)))"

definition digits_value :: "string \<Rightarrow> int" where
  "digits_value s =
     foldl (\<lambda>a c. 10 * a + (int (of_char c) - 48)) 0 (filter (\<lambda>c. c \<noteq> CHR ''_'') s)"

definition py_int :: "string \<Rightarrow> exn + int" where
  "py_int s =
     (let t = rev (dropWhile c_isspace (rev (dropWhile c_isspace s)));
          (sign, body) = (case t of
                            [] \<Rightarrow> (1, [])
                          | c # cs \<Rightarrow> if c = CHR ''-'' then (- 1, cs)
                                      else if c = CHR ''+'' then (1, cs)
                                      else (1, t))
      in if grouped_digits body then Inr (sign * digits_value body)
         else Inl (Exn ''ValueError'' (''invalid literal for int() with base 10: '' @ quoted s)))"

section \<open>get\_db\_connection\<close>

text \<open>
  The four driver libraries are outside \<open>functions.py\<close>.  What the function needs of
  them is kept in a record: which modules an \<open>import\<close> finds, and what each driver entry
  point answers to the arguments it is given, a connection or an exception.  \<open>'h\<close> is the
  handle of \<open>ibm_db\<close>, \<open>'c\<close> a connection.
\<close>

record ('h, 'c) drivers =
  installed :: "string \<Rightarrow> bool"
  cx_Oracle_connect :: "string \<Rightarrow> string \<Rightarrow> string \<Rightarrow> exn + 'c"
  mysql_connector_connect :: "string \<Rightarrow> string \<Rightarrow> string \<Rightarrow> int \<Rightarrow> string \<Rightarrow> exn + 'c"
  psycopg2_connect :: "string \<Rightarrow> exn + 'c"
  ibm_db_connect :: "string \<Rightarrow> string \<Rightarrow> string \<Rightarrow> exn + 'h"
  ibm_db_dbi_Connection :: "'h \<Rightarrow> exn + 'c"

text \<open>
  \<open>import m\<close> for a dotted name given as the list of its prefixes, outermost first
  (\<open>mysql\<close>, then \<open>mysql.connector\<close>): the first one that is not found raises
  \<open>ModuleNotFoundError\<close>.
\<close>

fun import_module :: "('h, 'c) drivers \<Rightarrow> string list \<Rightarrow> exn option" where
  "import_module env [] = None"
| "import_module env (m # ms) =
     (if installed env m then import_module env ms
      else Some (Exn ''ModuleNotFoundError'' (''No module named '' @ quoted m)))"

text \<open>
  The connection strings the branches build.  \<open>str.format\<close> puts its string arguments
  in as they are; the PostgreSQL literal is a triple-quoted string over five source lines,
  so it holds the line breaks and the indentation of the source.
\<close>

definition oracle_dsn :: "string \<Rightarrow> string \<Rightarrow> string \<Rightarrow> string" where
  "oracle_dsn host port db_name = host @ '':'' @ port @ ''/'' @ db_name"

definition postgres_dsn :: "string \<Rightarrow> string \<Rightarrow> string \<Rightarrow> string \<Rightarrow> string \<Rightarrow> string" where
  "postgres_dsn user password host port db_name =
     (let nl = CHR '' '' # CHR 0x0A # replicate 39 (CHR '' '')
      in ''user='' @ quoted user @ nl @ ''password='' @ quoted password @ nl
         @ ''host='' @ quoted host @ nl @ ''port='' @ quoted port @ nl
         @ ''dbname='' @ quoted db_name)"

definition db2_dsn :: "string \<Rightarrow> string \<Rightarrow> string \<Rightarrow> string \<Rightarrow> string \<Rightarrow> string" where
  "db2_dsn user password host port db_name =
     ''UID='' @ user @ '';PWD='' @ password @ '';HOSTNAME='' @ host
     @ '';PORT='' @ port @ '';DATABASE='' @ db_name @ '';''"

text \<open>
  The body of the \<open>try\<close> statement: the result, and the events up to the point where it
  returns or raises.
\<close>

definition connect_body ::
  "('h, 'c) drivers \<Rightarrow> string \<Rightarrow> string \<Rightarrow> string \<Rightarrow> string \<Rightarrow> string \<Rightarrow> string
     \<Rightarrow> (exn + 'c) \<times> event list" where
  "connect_body env db_type user password host port db_name =
     (if db_type = DBType_value ORACLE then
        (case import_module env [''cx_Oracle''] of
           Some e \<Rightarrow> (Inl e, [Import ''cx_Oracle''])
         | None \<Rightarrow>
             (cx_Oracle_connect env user password (oracle_dsn host port db_name),
              [Import ''cx_Oracle'', Call ''cx_Oracle.connect'']))
      else if db_type = DBType_value MYSQL then
        (case import_module env [''mysql'', ''mysql.connector''] of
           Some e \<Rightarrow> (Inl e, [Import ''mysql.connector''])
         | None \<Rightarrow>
             (case py_int port of
                Inl e \<Rightarrow> (Inl e, [Import ''mysql.connector''])
              | Inr p \<Rightarrow>
                  (mysql_connector_connect env user password host p db_name,
                   [Import ''mysql.connector'', Call ''mysql.connector.connect''])))
      else if db_type = DBType_value POSTGRES then
        (case import_module env [''psycopg2''] of
           Some e \<Rightarrow> (Inl e, [Import ''psycopg2''])
         | None \<Rightarrow>
             (psycopg2_connect env (postgres_dsn user password host port db_name),
              [Import ''psycopg2'', Call ''psycopg2.connect'']))
      else if db_type = DBType_value DB2 then
        (case import_module env [''ibm_db''] of
           Some e \<Rightarrow> (Inl e, [Import ''ibm_db''])
         | None \<Rightarrow>
             (case import_module env [''ibm_db_dbi''] of
                Some e \<Rightarrow> (Inl e, [Import ''ibm_db'', Import ''ibm_db_dbi''])
              | None \<Rightarrow>
                  (case ibm_db_connect env (db2_dsn user password host port db_name) [] [] of
                     Inl e \<Rightarrow>
                       (Inl e, [Import ''ibm_db'', Import ''ibm_db_dbi'', Call ''ibm_db.connect''])
                   | Inr conn \<Rightarrow>
                       (ibm_db_dbi_Connection env conn,
                        [Import ''ibm_db'', Import ''ibm_db_dbi'', Call ''ibm_db.connect'',
                         Call ''ibm_db_dbi.Connection'']))))
      else
        (Inl (Exn ''ValueError'' (''Database type '' @ quoted db_type @ '' is not supported.'')),
         []))"

text \<open>
  \<open>get_db_connection\<close>: the \<open>try\<close> body under its one handler,
  \<open>except ModuleNotFoundError\<close>, which raises a \<open>ConnectionError\<close> in its place.  Every
  other exception leaves the function as it was raised.  (The handler takes an exception
  by its class; \<open>ModuleNotFoundError\<close> has no subclass among the exceptions met here.)
\<close>

definition get_db_connection ::
  "('h, 'c) drivers \<Rightarrow> string \<Rightarrow> string \<Rightarrow> string \<Rightarrow> string \<Rightarrow> string \<Rightarrow> string
     \<Rightarrow> (exn + 'c) \<times> event list" where
  "get_db_connection env db_type user password host port db_name =
     (case connect_body env db_type user password host port db_name of
        (Inl err, evs) \<Rightarrow>
          if exn_class err = ''ModuleNotFoundError''
          then (Inl (Exn ''ConnectionError''
                       (''Database driver module is not installed: '' @ exn_msg err
                        @ ''. Please install it first.'')), evs)
          else (Inl err, evs)
      | (Inr conn, evs) \<Rightarrow> (Inr conn, evs))"

text \<open>The driver modules that the branch of a database type imports.\<close>

definition required_modules :: "string \<Rightarrow> string list" where
  "required_modules db_type =
     (if db_type = DBType_value ORACLE then [''cx_Oracle'']
      else if db_type = DBType_value MYSQL then [''mysql'', ''mysql.connector'']
      else if db_type = DBType_value POSTGRES then [''psycopg2'']
      else if db_type = DBType_value DB2 then [''ibm_db'', ''ibm_db_dbi'']
      else [])"

definition driver_missing :: "('h, 'c) drivers \<Rightarrow> string \<Rightarrow> bool" where
  "driver_missing env db_type = list_ex (\<lambda>m. \<not> installed env m) (required_modules db_type)"

definition supported :: "string \<Rightarrow> bool" where
  "supported db_type = (db_type \<in> set (map DBType_value [ORACLE, MYSQL, POSTGRES, DB2]))"

text \<open>
  A driver raises errors of its own classes when none of its entry points raises
  \<open>ModuleNotFoundError\<close> or \<open>ConnectionError\<close> itself.
\<close>

definition own_error :: "exn \<Rightarrow> bool" where
  "own_error e = (exn_class e \<notin> set [''ModuleNotFoundError'', ''ConnectionError''])"

definition raise_own_errors :: "('h, 'c) drivers \<Rightarrow> bool" where
  "raise_own_errors env =
     ((\<forall>user password dsn e. cx_Oracle_connect env user password dsn = Inl e \<longrightarrow> own_error e)
      \<and> (\<forall>user password host p db e.
            mysql_connector_connect env user password host p db = Inl e \<longrightarrow> own_error e)
      \<and> (\<forall>dsn e. psycopg2_connect env dsn = Inl e \<longrightarrow> own_error e)
      \<and> (\<forall>dsn user password e. ibm_db_connect env dsn user password = Inl e \<longrightarrow> own_error e)
      \<and> (\<forall>conn e. ibm_db_dbi_Connection env conn = Inl e \<longrightarrow> own_error e))"

text \<open>
  Two installations to run the function on.  In the first every driver is installed and
  the Oracle server turns the login down; in the second no driver is installed at all.
\<close>

definition rejecting_drivers :: "(unit, unit) drivers" where
  "rejecting_drivers =
     \<lparr>installed = (\<lambda>m. True),
      cx_Oracle_connect = (\<lambda>user password dsn.
        Inl (Exn ''cx_Oracle.DatabaseError''
               ''ORA-01017: invalid username/password; logon denied'')),
      mysql_connector_connect = (\<lambda>user password host port db. Inr ()),
      psycopg2_connect = (\<lambda>dsn. Inr ()),
      ibm_db_connect = (\<lambda>dsn user password. Inr ()),
      ibm_db_dbi_Connection = (\<lambda>conn. Inr ())\<rparr>"

definition no_drivers :: "(unit, unit) drivers" where
  "no_drivers = rejecting_drivers\<lparr>installed := (\<lambda>m. False)\<rparr>"

section \<open>open\_file\<close>

text \<open>
  The file system and the modules \<open>zipfile\<close>, \<open>gzip\<close> and \<open>io\<close> are outside
  \<open>functions.py\<close> as well.  The record holds the calls \<open>open_file\<close> makes:
  \<open>zipfile.ZipFile(file, mode="r")\<close>, \<open>zip_file.infolist()\<close>,
  \<open>zip_file.open(info, mode="r")\<close>, \<open>io.TextIOWrapper(f)\<close>,
  \<open>gzip.open(file, mode="rt")\<close> and \<open>open(file, mode='r')\<close>.  \<open>'z\<close> is an open
  archive, \<open>'i\<close> the description of one entry, \<open>'b\<close> a binary stream, \<open>'t\<close> a text
  stream.
\<close>

record ('z, 'i, 'b, 't) files =
  zipfile_ZipFile :: "string \<Rightarrow> exn + 'z"
  infolist :: "'z \<Rightarrow> 'i list"
  ZipFile_open :: "'z \<Rightarrow> 'i \<Rightarrow> exn + 'b"
  TextIOWrapper :: "'b \<Rightarrow> 't"
  gzip_open :: "string \<Rightarrow> exn + 't"
  builtin_open :: "string \<Rightarrow> exn + 't"

text \<open>
  \<open>open_file(file)\<close>.  \<open>zip_file.infolist()[0]\<close> raises \<open>IndexError\<close> on an archive
  without entries.  There is no \<open>try\<close> in the function: whatever a call raises leaves
  the function as it is.
\<close>

definition open_file :: "('z, 'i, 'b, 't) files \<Rightarrow> string \<Rightarrow> (exn + 't) \<times> event list" where
  "open_file env file =
     (if endswith file ''.zip'' then
        (case zipfile_ZipFile env file of
           Inl e \<Rightarrow> (Inl e, [Call ''zipfile.ZipFile''])
         | Inr zip_file \<Rightarrow>
             (case infolist env zip_file of
                [] \<Rightarrow> (Inl (Exn ''IndexError'' ''list index out of range''),
                       [Call ''zipfile.ZipFile'', Call ''ZipFile.infolist''])
              | info # later \<Rightarrow>
                  (case ZipFile_open env zip_file info of
                     Inl e \<Rightarrow> (Inl e, [Call ''zipfile.ZipFile'', Call ''ZipFile.infolist'',
                                        Call ''ZipFile.open''])
                   | Inr f \<Rightarrow> (Inr (TextIOWrapper env f),
                                [Call ''zipfile.ZipFile'', Call ''ZipFile.infolist'',
                                 Call ''ZipFile.open'', Call ''io.TextIOWrapper'']))))
      else if endswith file ''.gz'' then (gzip_open env file, [Call ''gzip.open''])
      else (builtin_open env file, [Call ''open'']))"

text \<open>
  The error kind \<open>FileAccessError\<close> that the specification names.  No class of that name
  is defined or raised in \<open>functions.py\<close>.
\<close>

definition is_FileAccessError :: "exn \<Rightarrow> bool" where
  "is_FileAccessError e = (exn_class e = ''FileAccessError'')"

text \<open>
  A small file system to run \<open>open_file\<close> on: an archive \<open>data.csv.zip\<close> with the entries
  \<open>a.csv\<close> and \<open>b.csv\<close>, a file \<open>broken.zip\<close> that is not an archive, a gzip file
  \<open>data.csv.gz\<close>, a plain file \<open>data.csv\<close>, and nothing else.  An entry is its name
  with its text, a stream is the text it yields.
\<close>

definition no_such_file :: "string \<Rightarrow> exn" where
  "no_such_file p = Exn ''FileNotFoundError'' (''[Errno 2] No such file or directory: '' @ quoted p)"

definition demo_files :: "((string \<times> string) list, string \<times> string, string, string) files" where
  "demo_files =
     \<lparr>zipfile_ZipFile = (\<lambda>p.
        if p = ''data.csv.zip'' then Inr [(''a.csv'', ''id,name''), (''b.csv'', ''x,y'')]
        else if p = ''broken.zip'' then Inl (Exn ''zipfile.BadZipFile'' ''File is not a zip file'')
        else Inl (no_such_file p)),
      infolist = (\<lambda>z. z),
      ZipFile_open = (\<lambda>z i. Inr (snd i)),
      TextIOWrapper = (\<lambda>f. f),
      gzip_open = (\<lambda>p. if p = ''data.csv.gz'' then Inr ''id,name'' else Inl (no_such_file p)),
      builtin_open = (\<lambda>p. if p = ''data.csv'' then Inr ''id,name'' else Inl (no_such_file p))\<rparr>"

section \<open>find\_all\_files\<close>

subsection \<open>Shell patterns: the module fnmatch\<close>

text \<open>
  \<open>find_all_files\<close> hands its pattern to \<open>glob.glob\<close>, which matches file names with
  \<open>fnmatch.filter\<close>.  \<open>fnmatch.translate\<close> turns a shell pattern into a regular
  expression, piece by piece; the pieces are kept here as a datatype instead of text:
  \<open>*\<close>, any one character (\<open>?\<close>), no character at all (an empty class), one given
  character, and a class of characters and ranges that may be negated.
\<close>

datatype item = Lit char | Range char char

datatype piece = PStar | PAny | PNever | PChar char | PClass bool "item list"

fun item_matches :: "item \<Rightarrow> char \<Rightarrow> bool" where
  "item_matches (Lit x) c = (c = x)"
| "item_matches (Range lo hi) c = (lo \<le> c \<and> c \<le> hi)"

fun piece_matches :: "piece \<Rightarrow> char \<Rightarrow> bool" where
  "piece_matches PStar c = True"
| "piece_matches PAny c = True"
| "piece_matches PNever c = False"
| "piece_matches (PChar x) c = (c = x)"
| "piece_matches (PClass negated items) c = (list_ex (\<lambda>i. item_matches i c) items \<noteq> negated)"

text \<open>
  The text between \<open>[\<close> and its \<open>]\<close>.  \<open>class_end rest\<close> is the index of the closing
  bracket in what follows the \<open>[\<close>: a leading \<open>!\<close> and then a leading \<open>]\<close> are stepped
  over before the search.  Without a closing bracket the \<open>[\<close> is an ordinary character.
\<close>

definition class_end :: "string \<Rightarrow> nat option" where
  "class_end rest =
     (let j1 = (if 0 < length rest \<and> rest ! 0 = CHR ''!'' then 1 else 0);
          j2 = (if j1 < length rest \<and> rest ! j1 = CHR '']'' then j1 + 1 else j1);
          tail = drop j2 rest
      in if CHR '']'' \<in> set tail then Some (j2 + length (takeWhile (\<lambda>c. c \<noteq> CHR '']'') tail))
         else None)"

text \<open>
  A class that holds a hyphen is cut into chunks at the hyphens that stand for a range.
  The search for the first one starts after the first character (after the second, behind
  a \<open>!\<close>); behind a range hyphen the next two characters are stepped over.  A hyphen at
  the very end goes to the chunk before it.
\<close>

fun chunks_scan :: "nat \<Rightarrow> string \<Rightarrow> string \<Rightarrow> string list" where
  "chunks_scan n cur [] = [cur]"
| "chunks_scan n cur (c # cs) =
     (if n = 0 \<and> c = CHR ''-'' then cur # chunks_scan 2 [] cs
      else chunks_scan (n - 1) (cur @ [c]) cs)"

definition split_chunks :: "string \<Rightarrow> string list" where
  "split_chunks stuff =
     (let chunks = chunks_scan (if hd stuff = CHR ''!'' then 2 else 1) [] stuff
      in if 2 \<le> length chunks \<and> last chunks = []
         then butlast (butlast chunks) @ [last (butlast chunks) @ ''-'']
         else chunks)"

text \<open>
  Empty ranges are taken out from the right: where the last character of a chunk is
  greater than the first of the next, both characters go and the two chunks become one.
  (No chunk is empty at that point.)
\<close>

fun remove_empty_ranges :: "string list \<Rightarrow> string list" where
  "remove_empty_ranges [] = []"
| "remove_empty_ranges [a] = [a]"
| "remove_empty_ranges (a # b # cs) =
     (case remove_empty_ranges (b # cs) of
        [] \<Rightarrow> [a]
      | b' # cs' \<Rightarrow>
          if a \<noteq> [] \<and> b' \<noteq> [] \<and> last a > hd b' then (butlast a @ tl b') # cs'
          else a # b' # cs')"

text \<open>
  What the chunks, joined by hyphens again, mean as a class of the regular expression:
  the last character of a chunk and the first of the next are the ends of a range, every
  other character stands for itself (the translation escapes each character that would
  mean something else).
\<close>

fun chunk_items :: "string list \<Rightarrow> item list" where
  "chunk_items [] = []"
| "chunk_items [a] = map Lit a"
| "chunk_items (a # b # cs) =
     (if a = [] \<or> b = [] then map Lit a @ Lit (CHR ''-'') # chunk_items (b # cs)
      else map Lit (butlast a) @ Range (last a) (hd b) # chunk_items (tl b # cs))"

definition class_piece :: "string \<Rightarrow> piece" where
  "class_piece stuff =
     (let chunks = (if CHR ''-'' \<in> set stuff then remove_empty_ranges (split_chunks stuff)
                    else [stuff])
      in if chunks = [[]] then PNever
         else if chunks = [''!''] then PAny
         else if hd chunks \<noteq> [] \<and> hd (hd chunks) = CHR ''!''
         then PClass True (chunk_items (tl (hd chunks) # tl chunks))
         else PClass False (chunk_items chunks))"

text \<open>
  The loop of \<open>translate\<close> over the pattern, with the list \<open>res\<close> of the pieces so far;
  stars that follow each other are one star.
\<close>

function translate_loop :: "piece list \<Rightarrow> string \<Rightarrow> piece list" where
  "translate_loop res [] = res"
| "translate_loop res (c # pat) =
     (if c = CHR ''*'' then
        (if res = [] \<or> last res \<noteq> PStar then translate_loop (res @ [PStar]) pat
         else translate_loop res pat)
      else if c = CHR ''?'' then translate_loop (res @ [PAny]) pat
      else if c = CHR ''['' then
        (case class_end pat of
           None \<Rightarrow> translate_loop (res @ [PChar (CHR ''['')]) pat
         | Some j \<Rightarrow> translate_loop (res @ [class_piece (take j pat)]) (drop (Suc j) pat))
      else translate_loop (res @ [PChar c]) pat)"
  by pat_completeness auto
termination
proof -
  have tw: "CHR '']'' \<in> set xs \<Longrightarrow> length (takeWhile (\<lambda>c. c \<noteq> CHR '']'') xs) < length xs"
    for xs :: string
    by (induction xs) auto
  have less: "class_end pat = Some j \<Longrightarrow> j < length pat" for pat j
    using tw by (fastforce simp: class_end_def Let_def split: if_splits)
  show ?thesis
    by (relation "measure (\<lambda>(res, pat). length pat)") (auto dest: less)
qed

definition translate :: "string \<Rightarrow> piece list" where
  "translate pat = translate_loop [] pat"

text \<open>
  Matching a whole name against the pieces, as the compiled expression does from its
  start to \<open>\Z\<close>: a star takes any run of characters, every other piece one character.
\<close>

fun matches :: "piece list \<Rightarrow> string \<Rightarrow> bool" where
  "matches [] s = (s = [])"
| "matches (PStar # ps) s =
     (matches ps s \<or> (case s of [] \<Rightarrow> False | c # cs \<Rightarrow> matches (PStar # ps) cs))"
| "matches (p # ps) s = (case s of [] \<Rightarrow> False | c # cs \<Rightarrow> piece_matches p c \<and> matches ps cs)"

text \<open>\<open>fnmatch.filter(names, pat)\<close> on POSIX, where \<open>normcase\<close> changes nothing.\<close>

definition fnmatch_filter :: "string list \<Rightarrow> string \<Rightarrow> string list" where
  "fnmatch_filter names pat = filter (matches (translate pat)) names"

subsection \<open>Paths: os.path on POSIX\<close>

text \<open>
  \<open>os.path.split(p)\<close>: the tail is what follows the last slash, the head what precedes
  it, without its trailing slashes unless it is slashes only.
\<close>

definition rstrip_slash :: "string \<Rightarrow> string" where
  "rstrip_slash s = rev (dropWhile (\<lambda>c. c = CHR ''/'') (rev s))"

definition posix_split :: "string \<Rightarrow> string \<times> string" where
  "posix_split p =
     (let tail = rev (takeWhile (\<lambda>c. c \<noteq> CHR ''/'') (rev p));
          head = take (length p - length tail) p
      in (if head \<noteq> [] \<and> \<not> list_all (\<lambda>c. c = CHR ''/'') head then rstrip_slash head else head,
          tail))"

text \<open>\<open>os.path.join(a, b)\<close> for two components.\<close>

definition posix_join :: "string \<Rightarrow> string \<Rightarrow> string" where
  "posix_join a b =
     (if b \<noteq> [] \<and> hd b = CHR ''/'' then b
      else if a = [] \<or> last a = CHR ''/'' then a @ b
      else a @ ''/'' @ b)"

subsection \<open>The module glob\<close>

text \<open>
  What \<open>glob\<close> asks of the file system: \<open>os.path.isdir\<close>, \<open>os.path.lexists\<close>, and
  \<open>os.scandir\<close>, which lists the entries of a directory, each with its name and whether
  it is a directory, or fails with \<open>OSError\<close> (\<open>None\<close>).
\<close>

record filesystem =
  isdir :: "string \<Rightarrow> bool"
  lexists :: "string \<Rightarrow> bool"
  scandir :: "string \<Rightarrow> (string \<times> bool) list option"

definition has_magic :: "string \<Rightarrow> bool" where
  "has_magic s = list_ex (\<lambda>c. c \<in> set ''*?['') s"

text \<open>\<open>_ishidden(path)\<close>, asked of patterns and entry names, which are never empty.\<close>

definition ishidden :: "string \<Rightarrow> bool" where
  "ishidden path = (path \<noteq> [] \<and> hd path = CHR ''.'')"

text \<open>
  \<open>_listdir(dirname, dir_fd, dironly)\<close>: the names in the directory (the current one for
  an empty name), directories only if asked so, and no name at all when the directory
  cannot be read.
\<close>

definition listdir :: "filesystem \<Rightarrow> string \<Rightarrow> bool \<Rightarrow> string list" where
  "listdir fs dirname dironly =
     (case scandir fs (if dirname = [] then ''.'' else dirname) of
        None \<Rightarrow> []
      | Some entries \<Rightarrow> map fst (filter (\<lambda>entry. \<not> dironly \<or> snd entry) entries))"

text \<open>\<open>_join(dirname, basename)\<close> of \<open>glob.py\<close>.\<close>

definition glob_join :: "string \<Rightarrow> string \<Rightarrow> string" where
  "glob_join dirname basename =
     (if dirname = [] \<or> basename = [] then (if dirname \<noteq> [] then dirname else basename)
      else posix_join dirname basename)"

text \<open>
  \<open>_glob1\<close> matches a pattern inside one directory, \<open>_glob0\<close> looks for one literal
  name in it.  Both return base names.
\<close>

definition glob1 :: "filesystem \<Rightarrow> string \<Rightarrow> string \<Rightarrow> bool \<Rightarrow> string list" where
  "glob1 fs dirname pattern dironly =
     (let names = listdir fs dirname dironly;
          names = (if \<not> ishidden pattern then filter (\<lambda>x. \<not> ishidden x) names else names)
      in fnmatch_filter names pattern)"

definition glob0 :: "filesystem \<Rightarrow> string \<Rightarrow> string \<Rightarrow> string list" where
  "glob0 fs dirname basename =
     (if basename \<noteq> [] then (if lexists fs (glob_join dirname basename) then [basename] else [])
      else (if isdir fs dirname then [basename] else []))"

text \<open>
  \<open>_iglob(pathname, root_dir, dir_fd, recursive, dironly)\<close> with the empty \<open>root_dir\<close>,
  no \<open>dir_fd\<close> and \<open>recursive\<close> false, which is how \<open>glob.glob(pattern)\<close> calls it.
  The results come in the order the generator yields them.
\<close>

function glob_iglob :: "filesystem \<Rightarrow> string \<Rightarrow> bool \<Rightarrow> string list" where
  "glob_iglob fs pathname dironly =
     (let dirname = fst (posix_split pathname);
          basename = snd (posix_split pathname)
      in if \<not> has_magic pathname then
           (if basename \<noteq> [] then (if lexists fs pathname then [pathname] else [])
            else (if isdir fs dirname then [pathname] else []))
         else if dirname = [] then glob1 fs [] basename dironly
         else
           (let dirs = (if dirname \<noteq> pathname \<and> has_magic dirname
                        then glob_iglob fs dirname True else [dirname])
            in concat (map (\<lambda>d. map (posix_join d)
                                   (if has_magic basename then glob1 fs d basename dironly
                                    else glob0 fs d basename))
                           dirs)))"
  by pat_completeness auto
termination
proof -
  have strip: "prefix (rstrip_slash s) s" for s
  proof -
    have "s = rev (dropWhile (\<lambda>c. c = CHR ''/'') (rev s))
              @ rev (takeWhile (\<lambda>c. c = CHR ''/'') (rev s))"
      by (metis rev_append rev_rev_ident takeWhile_dropWhile_id)
    then show ?thesis unfolding rstrip_slash_def by (metis prefixI)
  qed
  have head: "prefix (fst (posix_split p)) p" for p
    using strip take_is_prefix prefix_order.trans
    by (fastforce simp: posix_split_def Let_def)
  have less: "length (fst (posix_split p)) < length p" if ne: "fst (posix_split p) \<noteq> p" for p
  proof -
    obtain zs where zs: "p = fst (posix_split p) @ zs"
      using head [of p] by (auto simp: prefix_def)
    with ne have "zs \<noteq> []" by auto
    then have "length (fst (posix_split p)) < length (fst (posix_split p) @ zs)" by simp
    with zs show ?thesis by simp
  qed
  show ?thesis
    by (relation "measure (\<lambda>(fs, pathname, dironly). length pathname)") (auto dest: less)
qed

text \<open>
  \<open>glob.glob(pathname)\<close>: for the empty pattern a first result that is the empty string
  is dropped.
\<close>

definition glob_glob :: "filesystem \<Rightarrow> string \<Rightarrow> string list" where
  "glob_glob fs pathname =
     (let it = glob_iglob fs pathname False
      in if pathname = [] then
           (case it of [] \<Rightarrow> [] | s # rest \<Rightarrow> if s \<noteq> [] then s # rest else rest)
         else it)"

subsection \<open>The function\<close>

text \<open>
  \<open>find_all_files(pattern)\<close>.  \<open>sorted\<close> orders strings by their code points, a shorter
  string before its extensions.
\<close>

definition find_all_files :: "filesystem \<Rightarrow> string \<Rightarrow> string list" where
  "find_all_files fs pattern =
     (let pattern = (if isdir fs pattern then pattern @ ''/*.csv*'' else pattern)
      in sort (glob_glob fs pattern))"

text \<open>
  The directory part of the pattern that a directory \<open>D\<close> is rewritten to, as
  \<open>os.path.split\<close> gives it: \<open>D\<close> without its trailing slashes, or \<open>D\<close> and the slash
  when \<open>D\<close> is slashes only.
\<close>

definition csv_dir :: "string \<Rightarrow> string" where
  "csv_dir D = (if list_all (\<lambda>c. c = CHR ''/'') D then D @ ''/'' else rstrip_slash D)"

text \<open>
  A working directory with two directories in it: \<open>d[1]\<close>, which holds \<open>a.csv\<close> and
  \<open>b.csv.gz\<close>, and \<open>d1\<close>, which holds \<open>one.csv\<close>.
\<close>

definition bracket_fs :: filesystem where
  "bracket_fs =
     \<lparr>isdir = (\<lambda>p. p \<in> set [''.'', ''d[1]'', ''d1'']),
      lexists = (\<lambda>p. p \<in> set [''.'', ''d[1]'', ''d1'', ''d[1]/a.csv'', ''d[1]/b.csv.gz'',
                                  ''d1/one.csv'']),
      scandir = map_of
        [(''.'', [(''d[1]'', True), (''d1'', True)]),
         (''d[1]'', [(''a.csv'', False), (''b.csv.gz'', False)]),
         (''d1'', [(''one.csv'', False)])]\<rparr>"

section \<open>Properties of the string methods\<close>

lemma py_replace_delete_char: "py_replace [c] [] s = filter (\<lambda>x. x \<noteq> c) s"
  by (induction s) auto

lemma py_replace_map_char: "py_replace [c] [d] s = map (\<lambda>x. if x = c then d else x) s"
  by (induction s) auto

section \<open>Properties of format\_list\<close>

lemma format_loop_map:
  "format_loop toupper header output cols = output @ map (format_col toupper header) cols"
  by (induction cols arbitrary: "output") auto

lemma dropWhile_stop:
  "\<not> P x \<Longrightarrow> dropWhile P (ys @ x # zs) = dropWhile P ys @ x # zs"
  by (induction ys) auto

lemma strip_ends_commute:
  "rev (dropWhile P (rev (dropWhile P s))) = dropWhile P (rev (dropWhile P (rev s)))"
proof (cases "\<forall>x\<in>set s. P x")
  case True
  then have e: "dropWhile P s = []" "dropWhile P (rev s) = []" by simp_all
  show ?thesis unfolding e by simp
next
  case False
  then obtain x r where xr: "dropWhile P s = x # r" and nP: "\<not> P x"
    by (metis dropWhile_eq_Nil_conv hd_dropWhile list.collapse)
  let ?tw = "takeWhile P s"
  let ?mid = "rev (dropWhile P (rev r))"
  have s: "s = ?tw @ x # r" using xr by (metis takeWhile_dropWhile_id)
  have tw: "\<And>y. y \<in> set ?tw \<Longrightarrow> P y" by (meson set_takeWhileD)
  have "rev s = rev r @ x # rev ?tw" by (subst s) simp
  then have "dropWhile P (rev s) = dropWhile P (rev r) @ x # rev ?tw"
    using nP by (simp add: dropWhile_stop)
  then have "rev (dropWhile P (rev s)) = ?tw @ x # ?mid" by simp
  then have right: "dropWhile P (rev (dropWhile P (rev s))) = x # ?mid"
    using tw nP by (simp add: dropWhile_append2)
  have "dropWhile P (rev (x # r)) = dropWhile P (rev r) @ [x]"
    using nP dropWhile_stop [of P x "rev r" "[]"] by simp
  then have left: "rev (dropWhile P (rev (dropWhile P s))) = x # ?mid"
    using xr by simp
  show ?thesis using left right by simp
qed

text \<open>
  The whitespace of \<open>str.strip\<close> is the whitespace the specification's list names, and
  the capitals of \<open>str.upper\<close> are those of the alphabet.
\<close>

lemma isspace_spec: "isspace c = (c \<in> set spec_whitespace)"
  unfolding isspace_def spec_whitespace_def by (simp only: list.set insert_iff empty_iff) presburger

lemma py_strip_spec_trim: "py_strip s = spec_trim s"
proof -
  have "isspace = (\<lambda>c. c \<in> set spec_whitespace)" by (rule ext) (rule isspace_spec)
  then show ?thesis
    by (simp add: py_strip_def py_lstrip_def py_rstrip_def spec_trim_def strip_ends_commute)
qed

lemma upper_full_spec: "upper_full toupper c = spec_capital toupper c"
proof (cases "0x61 \<le> c \<and> c \<le> 0x7A")
  case True
  then have "c = 97 \<or> c = 98 \<or> c = 99 \<or> c = 100 \<or> c = 101 \<or> c = 102 \<or> c = 103 \<or> c = 104 \<or> c = 105 \<or> c = 106 \<or> c = 107 \<or> c = 108 \<or> c = 109 \<or> c = 110 \<or> c = 111 \<or> c = 112 \<or> c = 113 \<or> c = 114 \<or> c = 115 \<or> c = 116 \<or> c = 117 \<or> c = 118 \<or> c = 119 \<or> c = 120 \<or> c = 121 \<or> c = 122"
    by presburger
  then show ?thesis
    unfolding upper_full_def ascii_upper_def spec_capital_def ustr_def
    by (elim disjE) simp_all
next
  case False
  then show ?thesis
    unfolding upper_full_def ascii_upper_def spec_capital_def ustr_def
    by auto
qed

lemma py_upper_spec: "py_upper toupper s = spec_uppercase toupper s"
proof -
  have "upper_full toupper = spec_capital toupper" by (rule ext) (rule upper_full_spec)
  then show ?thesis by (simp add: py_upper_def spec_uppercase_def)
qed

lemma format_col_header: "format_col toupper True col = spec_header_field toupper col"
  by (simp add: format_col_def spec_header_field_def spec_underscore_def spec_strip_quotes_def
      ustr_def py_upper_spec py_replace_delete_char py_replace_map_char py_strip_spec_trim)

lemma format_col_data: "format_col toupper False col = spec_data_field col"
  by (simp add: format_col_def spec_data_field_def spec_strip_quotes_def ustr_def
      py_replace_delete_char py_strip_spec_trim)

text \<open>
  Trimming cuts a run of whitespace from each end and leaves a text that neither starts
  nor ends with whitespace.
\<close>

lemma spec_trim_shape:
  "\<exists>a b. s = a @ spec_trim s @ b
         \<and> list_all (\<lambda>c. c \<in> set spec_whitespace) a \<and> list_all (\<lambda>c. c \<in> set spec_whitespace) b
         \<and> (spec_trim s = [] \<or> (hd (spec_trim s) \<notin> set spec_whitespace
                                  \<and> last (spec_trim s) \<notin> set spec_whitespace))"
proof -
  let ?P = "\<lambda>c. c \<in> set spec_whitespace"
  let ?b = "takeWhile ?P (rev s)"
  let ?r = "dropWhile ?P (rev s)"
  let ?m = "rev ?r"
  let ?a = "takeWhile ?P ?m"
  let ?t = "dropWhile ?P ?m"
  have t: "spec_trim s = ?t" by (simp add: spec_trim_def)
  have "rev s = ?b @ ?r" by simp
  then have "s = ?m @ rev ?b" by (metis rev_append rev_rev_ident)
  moreover have m: "?m = ?a @ ?t" by simp
  ultimately have s: "s = ?a @ ?t @ rev ?b" by (metis append.assoc)
  have a: "list_all ?P ?a"
    unfolding list_all_iff using set_takeWhileD by fast
  have b: "list_all ?P (rev ?b)"
    unfolding list_all_iff set_rev using set_takeWhileD by fast
  have ends: "\<not> ?P (hd ?t) \<and> \<not> ?P (last ?t)" if ne: "?t \<noteq> []"
  proof
    show "\<not> ?P (hd ?t)" using ne by (rule hd_dropWhile)
    have "?m \<noteq> []" using ne by (metis dropWhile.simps(1))
    then have r: "?r \<noteq> []" by simp
    have "last ?t = last ?m"
      using ne m by (metis last_appendR)
    also have "\<dots> = hd ?r" using r by (simp add: last_rev)
    finally show "\<not> ?P (last ?t)" using r hd_dropWhile [of ?P "rev s"] by simp
  qed
  show ?thesis
    unfolding t using s a b ends by blast
qed

text \<open>
  Claim C1.  For a list of at least one field, \<open>format_list\<close> with \<open>header=True\<close>
  returns the list in which every field has lost its double-quote characters, was then
  trimmed of whitespace at both ends, then had its spaces turned into underscores, and was
  put in upper case, whatever the case table beyond ASCII.  On the two fields
  \<open>'  "Full Name" '\<close> and \<open>' Age '\<close> it returns \<open>FULL_NAME\<close> and \<open>AGE\<close>.
\<close>

theorem format_list_header:
  "(input_list \<noteq> [] \<longrightarrow>
      format_list toupper (Some input_list) True
        = Some (map (spec_header_field toupper) input_list))
   \<and> format_list toupper (Some [ustr ''  \"Full Name\" '', ustr '' Age '']) True
       = Some [ustr ''FULL_NAME'', ustr ''AGE'']"
proof
  show "input_list \<noteq> [] \<longrightarrow>
      format_list toupper (Some input_list) True
        = Some (map (spec_header_field toupper) input_list)"
    by (cases input_list) (simp_all add: format_list_def format_loop_map format_col_header)
  show "format_list toupper (Some [ustr ''  \"Full Name\" '', ustr '' Age '']) True
       = Some [ustr ''FULL_NAME'', ustr ''AGE'']"
    by (simp add: format_list_def format_col_def py_strip_def py_lstrip_def py_rstrip_def
        isspace_def py_upper_def upper_full_def ascii_upper_def ustr_def)
qed

text \<open>
  The header rule on a line with a quoted name, a name between a no-break space, a
  next-line control and an ideographic space, a sentence with every letter of the
  alphabet, two names with letters beyond ASCII (the sharp s becomes two letters), and a
  name between a zero-width space and an escape character, which are no whitespace and
  stay.
\<close>

theorem format_list_header_witness:
  "[ustr ''\"id\"'', 0xA0 # ustr ''first name'' @ [0x85, 0x3000],
    ustr ''the quick brown fox jumps over the lazy dog'',
    [0x73, 0x74, 0x72, 0x61, 0xDF, 0x65], [0xE9, 0x74, 0xE9], [0x200B, 0x78, 0x1B]] \<noteq> []
   \<and> format_list sample_toupper
        (Some [ustr ''\"id\"'', 0xA0 # ustr ''first name'' @ [0x85, 0x3000],
               ustr ''the quick brown fox jumps over the lazy dog'',
               [0x73, 0x74, 0x72, 0x61, 0xDF, 0x65], [0xE9, 0x74, 0xE9], [0x200B, 0x78, 0x1B]]) True
       = Some [ustr ''ID'', ustr ''FIRST_NAME'',
               ustr ''THE_QUICK_BROWN_FOX_JUMPS_OVER_THE_LAZY_DOG'',
               ustr ''STRASSE'', [0xC9, 0x54, 0xC9], [0x200B, 0x58, 0x1B]]"
  using format_list_header
    [of "[ustr ''\"id\"'', 0xA0 # ustr ''first name'' @ [0x85, 0x3000],
          ustr ''the quick brown fox jumps over the lazy dog'',
          [0x73, 0x74, 0x72, 0x61, 0xDF, 0x65], [0xE9, 0x74, 0xE9], [0x200B, 0x78, 0x1B]]"
        sample_toupper]
  by (simp add: spec_header_field_def spec_uppercase_def spec_capital_def spec_underscore_def
      spec_trim_def spec_strip_quotes_def spec_whitespace_def sample_toupper_def ustr_def)

text \<open>
  Claim C7.  For a list of at least one field, \<open>format_list\<close> with \<open>header=False\<close>
  only strikes the double-quote characters and trims whitespace at both ends of each
  field: the letters keep their case and the spaces inside stay.  On the two fields
  \<open>'  "Full Name" '\<close> and \<open>' Age '\<close> it returns \<open>Full Name\<close> and \<open>Age\<close>.
\<close>

theorem format_list_data:
  "(input_list \<noteq> [] \<longrightarrow>
      format_list toupper (Some input_list) False = Some (map spec_data_field input_list))
   \<and> format_list toupper (Some [ustr ''  \"Full Name\" '', ustr '' Age '']) False
       = Some [ustr ''Full Name'', ustr ''Age'']"
proof
  show "input_list \<noteq> [] \<longrightarrow>
      format_list toupper (Some input_list) False = Some (map spec_data_field input_list)"
    by (cases input_list) (simp_all add: format_list_def format_loop_map format_col_data)
  show "format_list toupper (Some [ustr ''  \"Full Name\" '', ustr '' Age '']) False
       = Some [ustr ''Full Name'', ustr ''Age'']"
    by (simp add: format_list_def format_col_def py_strip_def py_lstrip_def py_rstrip_def
        isspace_def ustr_def)
qed

text \<open>
  The data rule on a line with a quoted name, a field between a no-break space and a
  next-line control, a field with every whitespace character of Unicode on both sides,
  and a field between a zero-width space and an escape character, which stay.
\<close>

theorem format_list_data_witness:
  "[ustr ''\"Ann Lee\"'', 0xA0 # ustr ''ab'' @ [0x85],
    spec_whitespace @ ustr ''a b'' @ spec_whitespace, [0x200B, 0x78, 0x1B]] \<noteq> []
   \<and> format_list sample_toupper
        (Some [ustr ''\"Ann Lee\"'', 0xA0 # ustr ''ab'' @ [0x85],
               spec_whitespace @ ustr ''a b'' @ spec_whitespace, [0x200B, 0x78, 0x1B]]) False
       = Some [ustr ''Ann Lee'', ustr ''ab'', ustr ''a b'', [0x200B, 0x78, 0x1B]]"
  using format_list_data
    [of "[ustr ''\"Ann Lee\"'', 0xA0 # ustr ''ab'' @ [0x85],
          spec_whitespace @ ustr ''a b'' @ spec_whitespace, [0x200B, 0x78, 0x1B]]" sample_toupper]
  by (simp add: spec_data_field_def spec_trim_def spec_strip_quotes_def spec_whitespace_def ustr_def)

text \<open>
  Claim C6.  For \<open>None\<close> and for the empty list, \<open>format_list\<close> returns \<open>None\<close>, with
  \<open>header\<close> true or false.  A blank line reaches the function as the empty list, so it
  gives no record at all, and \<open>None\<close> is returned for no other input.
\<close>

theorem format_list_empty:
  "format_list toupper None header = None \<and> format_list toupper (Some []) header = None
   \<and> (format_list toupper input_list header = None) = (input_list = None \<or> input_list = Some [])"
  by (auto simp: format_list_def split: option.splits list.splits)

section \<open>Properties of the default ports\<close>

text \<open>
  Claim C8.  \<open>get_default_db_port\<close> returns \<open>"1521"\<close> for \<open>"oracle"\<close>, \<open>"3306"\<close> for
  \<open>"mysql"\<close>, \<open>"5432"\<close> for \<open>"postgres"\<close> and \<open>"50000"\<close> for \<open>"db2"\<close>.
\<close>

theorem get_default_db_port_table:
  "get_default_db_port ''oracle'' = Some ''1521'' \<and> get_default_db_port ''mysql'' = Some ''3306''
   \<and> get_default_db_port ''postgres'' = Some ''5432'' \<and> get_default_db_port ''db2'' = Some ''50000''"
  by (simp add: get_default_db_port_def)

text \<open>
  Claim C10.  For a database type that is none of the four supported tags,
  \<open>get_default_db_port\<close> returns \<open>None\<close>: it neither raises nor returns a port.
\<close>

theorem get_default_db_port_unsupported:
  "\<not> supported db_type \<Longrightarrow> get_default_db_port db_type = None"
  by (simp add: get_default_db_port_def supported_def)

text \<open>
  \<open>"sqlite"\<close> is such a type.
\<close>

theorem get_default_db_port_unsupported_witness:
  "\<not> supported ''sqlite'' \<and> get_default_db_port ''sqlite'' = None"
  using get_default_db_port_unsupported [of "''sqlite''"] by (simp add: supported_def)

section \<open>Properties of get\_db\_connection\<close>

lemma import_module_None: "(import_module env ms = None) = (\<forall>m\<in>set ms. installed env m)"
  by (induction ms) auto

lemma import_module_class:
  "import_module env ms = Some e \<Longrightarrow> exn_class e = ''ModuleNotFoundError''"
  by (induction ms) (auto split: if_splits)

lemma py_int_class: "py_int s = Inl e \<Longrightarrow> exn_class e = ''ValueError''"
  by (auto simp: py_int_def Let_def split: if_splits prod.splits)

text \<open>
  Claim C9.  For a database type that is none of the four supported tags,
  \<open>get_db_connection\<close> raises \<open>ValueError\<close>, which is not the \<open>ConnectionError\<close> of a
  missing driver module, and it does so before any driver is imported or called: the list
  of events is empty, whatever the installation.
\<close>

theorem get_db_connection_unsupported:
  "\<not> supported db_type \<Longrightarrow>
     get_db_connection env db_type user password host port db_name
       = (Inl (Exn ''ValueError'' (''Database type '' @ quoted db_type @ '' is not supported.'')), [])
     \<and> (\<forall>m. fst (get_db_connection env db_type user password host port db_name)
              \<noteq> Inl (Exn ''ConnectionError'' m))"
  by (simp add: supported_def get_db_connection_def connect_body_def)

text \<open>
  \<open>"sqlite"\<close> on an installation without any driver: the error is the \<open>ValueError\<close>,
  not the \<open>ConnectionError\<close> that a supported type would get there.
\<close>

theorem get_db_connection_unsupported_witness:
  "\<not> supported ''sqlite''
   \<and> get_db_connection no_drivers ''sqlite'' ''scott'' ''tiger'' ''localhost'' ''1521'' ''ORCL''
       = (Inl (Exn ''ValueError'' (''Database type '' @ quoted ''sqlite'' @ '' is not supported.'')), [])"
  using get_db_connection_unsupported
    [of "''sqlite''" no_drivers "''scott''" "''tiger''" "''localhost''" "''1521''" "''ORCL''"]
  by (simp add: supported_def)

lemma driver_missing_import:
  "driver_missing env db_type = (import_module env (required_modules db_type) \<noteq> None)"
  by (auto simp: driver_missing_def import_module_None list_ex_iff)

lemma handler_ConnectionError:
  "(\<exists>m. fst (get_db_connection env t u p h port db) = Inl (Exn ''ConnectionError'' m))
     = (\<exists>e. fst (connect_body env t u p h port db) = Inl e
            \<and> exn_class e \<in> {''ModuleNotFoundError'', ''ConnectionError''})"
  apply (simp add: get_db_connection_def split: prod.splits sum.splits)
  apply (cases "connect_body env t u p h port db")
  subgoal for r evs
    apply (cases r)
    subgoal for e by (cases e) auto
    subgoal by auto
    done
  done

lemma connect_body_missing:
  "driver_missing env t \<Longrightarrow>
     \<exists>e. fst (connect_body env t u p h port db) = Inl e \<and> exn_class e = ''ModuleNotFoundError''"
  by (auto simp: connect_body_def driver_missing_def required_modules_def split: if_splits)

lemma connect_body_present:
  assumes "raise_own_errors env" "\<not> driver_missing env t"
    "fst (connect_body env t u p h port db) = Inl e"
  shows "exn_class e \<notin> {''ModuleNotFoundError'', ''ConnectionError''}"
proof -
  have own: "\<And>x. own_error x \<Longrightarrow> exn_class x \<notin> {''ModuleNotFoundError'', ''ConnectionError''}"
    by (simp add: own_error_def)
  note o = assms(1)[unfolded raise_own_errors_def]
  consider (ora) "t = ''oracle''" | (my) "t = ''mysql''" | (pg) "t = ''postgres''" | (db2) "t = ''db2''"
    | (other) "\<not> supported t"
    by (auto simp: supported_def)
  then show ?thesis
  proof cases
    case ora
    with assms(2,3) o own show ?thesis
      by (auto simp: connect_body_def driver_missing_def required_modules_def)
  next
    case my
    with assms(2,3) o own py_int_class show ?thesis
      by (fastforce simp: connect_body_def driver_missing_def required_modules_def split: sum.splits)
  next
    case pg
    with assms(2,3) o own show ?thesis
      by (auto simp: connect_body_def driver_missing_def required_modules_def)
  next
    case db2
    with assms(2,3) o own show ?thesis
      by (auto simp: connect_body_def driver_missing_def required_modules_def split: sum.splits)
  next
    case other
    with assms(3) show ?thesis
      by (auto simp: connect_body_def supported_def)
  qed
qed

lemma handler_passes:
  "fst (connect_body env t u p h port db) = Inl e \<Longrightarrow> exn_class e \<noteq> ''ModuleNotFoundError'' \<Longrightarrow>
     fst (get_db_connection env t u p h port db) = Inl e"
  by (cases "connect_body env t u p h port db") (simp add: get_db_connection_def)

lemma ConnectionError_iff_missing:
  assumes "raise_own_errors env"
  shows "(\<exists>m. fst (get_db_connection env t u p h port db) = Inl (Exn ''ConnectionError'' m))
           = driver_missing env t"
proof (cases "driver_missing env t")
  case True
  then show ?thesis
    using connect_body_missing [of env t u p h port db] by (auto simp: handler_ConnectionError)
next
  case False
  then show ?thesis
    using connect_body_present [OF assms False, of u p h port db]
    by (auto simp: handler_ConnectionError)
qed

text \<open>
  Claim C5, as amended.  With drivers that raise errors of their own classes,
  \<open>get_db_connection\<close> fails with a \<open>ConnectionError\<close> exactly when a driver module that
  the branch of the database type imports is not installed.  An error with which the
  connect call of an installed driver answers, rejected credentials among them, leaves the
  function unchanged, as the driver's own error.
\<close>

theorem get_db_connection_ConnectionError:
  assumes "raise_own_errors env"
  shows "((\<exists>m. fst (get_db_connection env t u p h port db) = Inl (Exn ''ConnectionError'' m))
            = driver_missing env t)
    \<and> (installed env ''cx_Oracle'' \<and> cx_Oracle_connect env u p (oracle_dsn h port db) = Inl e
          \<longrightarrow> fst (get_db_connection env ''oracle'' u p h port db) = Inl e)
    \<and> (installed env ''mysql'' \<and> installed env ''mysql.connector'' \<and> py_int port = Inr n
          \<and> mysql_connector_connect env u p h n db = Inl e
          \<longrightarrow> fst (get_db_connection env ''mysql'' u p h port db) = Inl e)
    \<and> (installed env ''psycopg2'' \<and> psycopg2_connect env (postgres_dsn u p h port db) = Inl e
          \<longrightarrow> fst (get_db_connection env ''postgres'' u p h port db) = Inl e)
    \<and> (installed env ''ibm_db'' \<and> installed env ''ibm_db_dbi''
          \<and> ibm_db_connect env (db2_dsn u p h port db) [] [] = Inl e
          \<longrightarrow> fst (get_db_connection env ''db2'' u p h port db) = Inl e)"
proof -
  note o = assms[unfolded raise_own_errors_def]
  have own: "\<And>x. own_error x \<Longrightarrow> exn_class x \<noteq> ''ModuleNotFoundError''"
    by (simp add: own_error_def)
  have ora: "installed env ''cx_Oracle'' \<and> cx_Oracle_connect env u p (oracle_dsn h port db) = Inl e
          \<longrightarrow> fst (get_db_connection env ''oracle'' u p h port db) = Inl e"
    using o own by (auto intro!: handler_passes simp: connect_body_def)
  have my: "installed env ''mysql'' \<and> installed env ''mysql.connector'' \<and> py_int port = Inr n
          \<and> mysql_connector_connect env u p h n db = Inl e
          \<longrightarrow> fst (get_db_connection env ''mysql'' u p h port db) = Inl e"
    using o own by (auto intro!: handler_passes simp: connect_body_def)
  have pg: "installed env ''psycopg2'' \<and> psycopg2_connect env (postgres_dsn u p h port db) = Inl e
          \<longrightarrow> fst (get_db_connection env ''postgres'' u p h port db) = Inl e"
    using o own by (auto intro!: handler_passes simp: connect_body_def)
  have db2: "installed env ''ibm_db'' \<and> installed env ''ibm_db_dbi''
          \<and> ibm_db_connect env (db2_dsn u p h port db) [] [] = Inl e
          \<longrightarrow> fst (get_db_connection env ''db2'' u p h port db) = Inl e"
    using o own by (auto intro!: handler_passes simp: connect_body_def)
  show ?thesis
    using ConnectionError_iff_missing [OF assms, of t u p h port db] ora my pg db2 by blast
qed

text \<open>
  Both halves at work: PostgreSQL without its driver, and Oracle turning a login down.
\<close>

theorem get_db_connection_ConnectionError_witness:
  "raise_own_errors no_drivers \<and> driver_missing no_drivers ''postgres''
   \<and> (\<exists>m. fst (get_db_connection no_drivers ''postgres'' ''scott'' ''tiger'' ''localhost'' ''5432'' ''db'')
            = Inl (Exn ''ConnectionError'' m))
   \<and> raise_own_errors rejecting_drivers \<and> installed rejecting_drivers ''cx_Oracle''
   \<and> cx_Oracle_connect rejecting_drivers ''scott'' ''tiger'' (oracle_dsn ''db.example.org'' ''1521'' ''XE'')
       = Inl (Exn ''cx_Oracle.DatabaseError'' ''ORA-01017: invalid username/password; logon denied'')
   \<and> fst (get_db_connection rejecting_drivers ''oracle'' ''scott'' ''tiger'' ''db.example.org'' ''1521'' ''XE'')
       = Inl (Exn ''cx_Oracle.DatabaseError'' ''ORA-01017: invalid username/password; logon denied'')"
proof -
  have a: "raise_own_errors no_drivers" and b: "raise_own_errors rejecting_drivers"
    by (simp_all add: raise_own_errors_def no_drivers_def rejecting_drivers_def own_error_def)
  have c: "driver_missing no_drivers ''postgres''"
    by (simp add: driver_missing_def required_modules_def no_drivers_def)
  show ?thesis
    using a b c
      get_db_connection_ConnectionError [OF a, of "''postgres''" "''scott''" "''tiger''" "''localhost''" "''5432''" "''db''"]
      get_db_connection_ConnectionError [OF b, of "''oracle''" "''scott''" "''tiger''" "''db.example.org''" "''1521''" "''XE''"
         "Exn ''cx_Oracle.DatabaseError'' ''ORA-01017: invalid username/password; logon denied''"]
    by (simp add: rejecting_drivers_def)
qed

text \<open>
  Claim C5 as it was stated fails where the driver is installed and the server rejects
  the credentials: the function fails with the driver's \<open>DatabaseError\<close>, which is not
  a \<open>ConnectionError\<close>.
\<close>

theorem get_db_connection_rejected_counterexample:
  "installed rejecting_drivers ''cx_Oracle''
   \<and> cx_Oracle_connect rejecting_drivers ''scott'' ''wrong'' (oracle_dsn ''localhost'' ''1521'' ''ORCL'')
       = Inl (Exn ''cx_Oracle.DatabaseError'' ''ORA-01017: invalid username/password; logon denied'')
   \<and> get_db_connection rejecting_drivers ''oracle'' ''scott'' ''wrong'' ''localhost'' ''1521'' ''ORCL''
       = (Inl (Exn ''cx_Oracle.DatabaseError'' ''ORA-01017: invalid username/password; logon denied''),
          [Import ''cx_Oracle'', Call ''cx_Oracle.connect''])
   \<and> exn_class (Exn ''cx_Oracle.DatabaseError'' ''ORA-01017: invalid username/password; logon denied'')
       \<noteq> ''ConnectionError''"
  by (simp add: rejecting_drivers_def get_db_connection_def connect_body_def)

section \<open>Properties of open\_file\<close>

lemma gz_not_zip: "endswith file ''.gz'' \<Longrightarrow> \<not> endswith file ''.zip''"
proof
  assume "endswith file ''.gz''" "endswith file ''.zip''"
  then obtain a b where "file = a @ ''.gz''" "file = b @ ''.zip''"
    by (auto simp: endswith_def suffix_def)
  then have "last (a @ ''.gz'') = last (b @ ''.zip'')" by simp
  then show False by simp
qed



text \<open>
  Claim C4 as it was stated fails on a path that does not exist: \<open>open_file\<close> fails
  with the \<open>FileNotFoundError\<close> of \<open>open\<close>, which is not a \<open>FileAccessError\<close>.
\<close>

theorem open_file_missing_counterexample:
  "builtin_open demo_files ''missing.csv'' = Inl (no_such_file ''missing.csv'')
   \<and> open_file demo_files ''missing.csv'' = (Inl (no_such_file ''missing.csv''), [Call ''open''])
   \<and> exn_class (no_such_file ''missing.csv'') = ''FileNotFoundError''
   \<and> \<not> is_FileAccessError (no_such_file ''missing.csv'')"
  by (simp add: open_file_def demo_files_def endswith_def suffix_def no_such_file_def
      is_FileAccessError_def)

text \<open>
  Claim C4, as amended.  When the call that opens the path fails, \<open>open\<close>,
  \<open>gzip.open\<close>, \<open>zipfile.ZipFile\<close> for the archive or \<open>ZipFile.open\<close> for its first
  entry, \<open>open_file\<close> fails with the very exception that call raised.
\<close>

theorem open_file_errors_pass:
  "(\<not> endswith file ''.zip'' \<and> \<not> endswith file ''.gz'' \<and> builtin_open env file = Inl e
      \<longrightarrow> fst (open_file env file) = Inl e)
   \<and> (endswith file ''.gz'' \<and> gzip_open env file = Inl e \<longrightarrow> fst (open_file env file) = Inl e)
   \<and> (endswith file ''.zip'' \<and> zipfile_ZipFile env file = Inl e \<longrightarrow> fst (open_file env file) = Inl e)
   \<and> (endswith file ''.zip'' \<and> zipfile_ZipFile env file = Inr zip_file
        \<and> infolist env zip_file = info # later \<and> ZipFile_open env zip_file info = Inl e
      \<longrightarrow> fst (open_file env file) = Inl e)"
  using gz_not_zip [of "file"] by (auto simp: open_file_def)

text \<open>
  A file that is not an archive, a gzip file and a plain file that do not exist.
\<close>

theorem open_file_errors_pass_witness:
  "endswith ''broken.zip'' ''.zip''
   \<and> zipfile_ZipFile demo_files ''broken.zip'' = Inl (Exn ''zipfile.BadZipFile'' ''File is not a zip file'')
   \<and> fst (open_file demo_files ''broken.zip'') = Inl (Exn ''zipfile.BadZipFile'' ''File is not a zip file'')
   \<and> endswith ''absent.csv.gz'' ''.gz''
   \<and> gzip_open demo_files ''absent.csv.gz'' = Inl (no_such_file ''absent.csv.gz'')
   \<and> fst (open_file demo_files ''absent.csv.gz'') = Inl (no_such_file ''absent.csv.gz'')
   \<and> \<not> endswith ''absent.csv'' ''.zip'' \<and> \<not> endswith ''absent.csv'' ''.gz''
   \<and> builtin_open demo_files ''absent.csv'' = Inl (no_such_file ''absent.csv'')
   \<and> fst (open_file demo_files ''absent.csv'') = Inl (no_such_file ''absent.csv'')"
proof -
  have z: "endswith ''broken.zip'' ''.zip''" and g: "endswith ''absent.csv.gz'' ''.gz''"
    and p: "\<not> endswith ''absent.csv'' ''.zip''" "\<not> endswith ''absent.csv'' ''.gz''"
    by (simp_all add: endswith_def suffix_def)
  show ?thesis
    using z g p
      open_file_errors_pass [of "''broken.zip''" demo_files "Exn ''zipfile.BadZipFile'' ''File is not a zip file''"]
      open_file_errors_pass [of "''absent.csv.gz''" demo_files "no_such_file ''absent.csv.gz''"]
      open_file_errors_pass [of "''absent.csv''" demo_files "no_such_file ''absent.csv''"]
    by (simp add: demo_files_def)
qed

section \<open>Properties of find\_all\_files\<close>

lemma translate_csv:
  "translate ''*.csv*'' = [PStar, PChar (CHR ''.''), PChar (CHR ''c''), PChar (CHR ''s''), PChar (CHR ''v''), PStar]"
  by (simp add: translate_def)

lemma matches_star_only: "matches [PStar] s"
  by (induction s) auto

lemma matches_star: "matches (PStar # ps) s = (\<exists>k\<le>length s. matches ps (drop k s))"
proof (induction s)
  case Nil
  then show ?case by simp
next
  case (Cons c cs)
  have "(\<exists>k\<le>length (c # cs). matches ps (drop k (c # cs)))
        = (matches ps (c # cs) \<or> (\<exists>k\<le>length cs. matches ps (drop k cs)))"
    (is "?L = ?R")
  proof
    assume ?L
    then obtain k where k: "k \<le> length (c # cs)" "matches ps (drop k (c # cs))" by blast
    then show ?R by (cases k) auto
  next
    assume ?R
    then show ?L
    proof
      assume "matches ps (c # cs)"
      then have "matches ps (drop 0 (c # cs))" by simp
      then show ?L by blast
    next
      assume "\<exists>k\<le>length cs. matches ps (drop k cs)"
      then obtain k where "k \<le> length cs" "matches ps (drop k cs)" by blast
      then have "Suc k \<le> length (c # cs)" "matches ps (drop (Suc k) (c # cs))" by simp_all
      then show ?L by blast
    qed
  qed
  with Cons show ?case by simp
qed

lemma matches_chars:
  "matches (map PChar w @ ps) s = (prefix w s \<and> matches ps (drop (length w) s))"
proof (induction w arbitrary: s)
  case Nil
  then show ?case by simp
next
  case (Cons x w)
  then show ?case by (cases s) auto
qed

lemma matches_csv: "matches (translate ''*.csv*'') name = sublist ''.csv'' name"
proof -
  have t: "translate ''*.csv*'' = PStar # map PChar ''.csv'' @ [PStar]"
    by (simp add: translate_csv)
  have c: "matches (map PChar ''.csv'' @ [PStar]) s = prefix ''.csv'' s" for s
    unfolding matches_chars by (simp only: matches_star_only simp_thms)
  have "matches (translate ''*.csv*'') name = (\<exists>k\<le>length name. prefix ''.csv'' (drop k name))"
    unfolding t matches_star c ..
  also have "\<dots> = sublist ''.csv'' name"
  proof
    assume "\<exists>k\<le>length name. prefix ''.csv'' (drop k name)"
    then obtain k zs where "drop k name = ''.csv'' @ zs" by (auto simp: prefix_def)
    then have "name = take k name @ ''.csv'' @ zs" by (metis append_take_drop_id)
    then show "sublist ''.csv'' name" unfolding sublist_def by blast
  next
    assume "sublist ''.csv'' name"
    then obtain ps ss where n: "name = ps @ ''.csv'' @ ss" unfolding sublist_def by blast
    then have "length ps \<le> length name" "prefix ''.csv'' (drop (length ps) name)" by simp_all
    then show "\<exists>k\<le>length name. prefix ''.csv'' (drop k name)" by blast
  qed
  finally show ?thesis .
qed

lemma has_magic_append: "has_magic (a @ b) = (has_magic a \<or> has_magic b)"
  by (simp add: has_magic_def list_ex_append)

lemma rstrip_slash_snoc: "rstrip_slash (D @ ''/'') = rstrip_slash D"
  by (simp add: rstrip_slash_def)

lemma posix_split_csv: "posix_split (D @ ''/*.csv*'') = (csv_dir D, ''*.csv*'')"
proof -
  have r: "rev (D @ ''/*.csv*'') = ''*vsc.*'' @ CHR ''/'' # rev D" by simp
  have tw: "takeWhile (\<lambda>c. c \<noteq> CHR ''/'') (rev (D @ ''/*.csv*'')) = ''*vsc.*''"
    unfolding r by simp
  have tail: "rev (takeWhile (\<lambda>c. c \<noteq> CHR ''/'') (rev (D @ ''/*.csv*''))) = ''*.csv*''"
    unfolding tw by simp
  have "D @ ''/*.csv*'' = (D @ ''/'') @ ''*.csv*''" by simp
  then have head: "take (length (D @ ''/*.csv*'') - length ''*.csv*'') (D @ ''/*.csv*'') = D @ ''/''"
    by (metis add_diff_cancel_right' append_eq_conv_conj length_append)
  show ?thesis
    unfolding posix_split_def Let_def tail head
    by (simp add: csv_dir_def rstrip_slash_snoc)
qed

lemma csv_dir_nonempty: "csv_dir D \<noteq> []"
  by (auto simp: csv_dir_def rstrip_slash_def list_all_iff)

lemma set_rstrip_slash: "set (rstrip_slash D) \<subseteq> set D"
proof -
  have "set (dropWhile (\<lambda>c. c = CHR ''/'') (rev D)) \<subseteq> set (rev D)"
    by (meson set_dropWhileD subsetI)
  then show ?thesis by (simp add: rstrip_slash_def)
qed
lemma has_magic_mono: "set a \<subseteq> set b \<Longrightarrow> has_magic a \<Longrightarrow> has_magic b"
  unfolding has_magic_def list_ex_iff by blast
lemma csv_dir_no_magic: "\<not> has_magic D \<Longrightarrow> \<not> has_magic (csv_dir D)"
proof (cases "list_all (\<lambda>c. c = CHR ''/'') D")
  case True
  have "\<not> has_magic ''/''" by (simp add: has_magic_def)
  moreover assume "\<not> has_magic D"
  ultimately show ?thesis using True by (simp add: csv_dir_def has_magic_append)
next
  case False
  assume "\<not> has_magic D"
  then have "\<not> has_magic (rstrip_slash D)"
    using has_magic_mono [OF set_rstrip_slash] by blast
  then show ?thesis using False by (simp add: csv_dir_def)
qed

lemma glob1_csv:
  "glob1 fs d ''*.csv*'' dironly
     = filter (\<lambda>n. \<not> ishidden n \<and> sublist ''.csv'' n) (listdir fs d dironly)"
proof -
  have "\<not> ishidden ''*.csv*''" by (simp add: ishidden_def)
  then show ?thesis
    by (simp add: glob1_def Let_def fnmatch_filter_def matches_csv conj_commute)
qed

lemma glob_iglob_csv:
  assumes "\<not> has_magic D"
  shows "glob_iglob fs (D @ ''/*.csv*'') False
           = map (posix_join (csv_dir D))
               (filter (\<lambda>n. \<not> ishidden n \<and> sublist ''.csv'' n) (listdir fs (csv_dir D) False))"
proof -
  have m: "has_magic (D @ ''/*.csv*'')" "has_magic ''*.csv*''"
    by (simp_all add: has_magic_append) (simp_all add: has_magic_def)
  show ?thesis
    by (subst glob_iglob.simps)
       (simp add: posix_split_csv m csv_dir_nonempty csv_dir_no_magic [OF assms] glob1_csv Let_def
         del: glob_iglob.simps)
qed

text \<open>
  On a directory whose path holds none of the characters \<open>*\<close>, \<open>?\<close> and \<open>[\<close>,
  \<open>find_all_files\<close> lists that directory, keeps the names that do not start with a dot and
  hold \<open>.csv\<close>, and returns their paths in sorted order.
\<close>

lemma find_all_files_directory:
  assumes "isdir fs D" "\<not> has_magic D"
  shows "find_all_files fs D
           = sort (map (posix_join (csv_dir D))
               (filter (\<lambda>n. \<not> ishidden n \<and> sublist ''.csv'' n) (listdir fs (csv_dir D) False)))"
  using assms by (simp add: find_all_files_def glob_glob_def glob_iglob_csv del: glob_iglob.simps)

text \<open>
  So for a directory whose path holds none of the characters \<open>*\<close>, \<open>?\<close> and \<open>[\<close> the
  result is sorted and holds one path for each entry of the directory that matches, and
  nothing else.
\<close>

lemma find_all_files_directory_exact:
  assumes "isdir fs D" "\<not> has_magic D"
  shows "sorted (find_all_files fs D)"
    and "length (find_all_files fs D)
           = length (filter (\<lambda>n. \<not> ishidden n \<and> sublist ''.csv'' n) (listdir fs (csv_dir D) False))"
    and "set (find_all_files fs D)
           = posix_join (csv_dir D) `
               {n \<in> set (listdir fs (csv_dir D) False). \<not> ishidden n \<and> sublist ''.csv'' n}"
  by (simp_all add: find_all_files_directory [OF assms])

text \<open>
  Claim C2 at a directory whose name holds a bracket.  \<open>d[1]\<close> is a directory with the
  two entries \<open>a.csv\<close> and \<open>b.csv.gz\<close>, both matching \<open>*.csv*\<close>.  The pattern is rewritten
  to \<open>d[1]/*.csv*\<close>, in which \<open>glob\<close> reads \<open>[1]\<close> as a character class: the result is
  the file of the other directory \<open>d1\<close>, and none of the two files of \<open>d[1]\<close>.
\<close>

theorem find_all_files_bracket_directory:
  "isdir bracket_fs ''d[1]''
   \<and> scandir bracket_fs ''d[1]'' = Some [(''a.csv'', False), (''b.csv.gz'', False)]
   \<and> find_all_files bracket_fs ''d[1]'' = [''d1/one.csv'']"
  by code_simp

end
